theory Spec2Isabelle
  imports Complex_Main
begin

section \<open>Python floats: IEEE 754 binary64, round to nearest, ties to even\<close>

text \<open>
  The incomes, the ratios and the amounts of \<^verbatim>\<open>financial_gearbox.py\<close> are Python
  floats. A float is modelled by what it denotes: not-a-number, a signed infinity, or a
  sign, a 53-bit significand and an exponent, with value \<open>(-1)^s * m * 2^e\<close>. The
  canonical form of a finite float has \<open>- 1074 \<le> e\<close>, \<open>m < 2^53\<close> and
  \<open>2^52 \<le> m\<close> unless \<open>e = - 1074\<close> (zero and the subnormal numbers).
\<close>

datatype pyfloat = Nan | Infty bool | Finite bool nat int

text \<open>The number of bits of a natural number (Python's \<^verbatim>\<open>int.bit_length\<close>).\<close>

fun bit_length :: "nat \<Rightarrow> nat" where
  "bit_length n = (if n = 0 then 0 else bit_length (n div 2) + 1)"

declare bit_length.simps [simp del]

text \<open>The quotient \<open>n / d\<close> rounded to the nearest natural number, a tie to the even one.\<close>

definition rne_div :: "nat \<Rightarrow> nat \<Rightarrow> nat" where
  "rne_div n d =
    (let q = n div d; r = n mod d
     in if 2 * r < d then q else if d < 2 * r then q + 1 else if even q then q else q + 1)"

text \<open>
  \<open>round_to s M E\<close> is the float nearest to \<open>(-1)^s * M * 2^E\<close>: the exponent of the
  result is the one that leaves 53 bits of \<open>M\<close>, and never below \<open>- 1074\<close>; a
  significand that rounds up to \<open>2^53\<close> moves to the next binade; a result of \<open>2^1024\<close> or
  more is an infinity.
\<close>

definition round_to :: "bool \<Rightarrow> nat \<Rightarrow> int \<Rightarrow> pyfloat" where
  "round_to s M E =
    (if M = 0 then Finite s 0 (- 1074)
     else
       let e = max (E + int (bit_length M) - 53) (- 1074);
           m = (if e \<le> E then M * 2 ^ nat (E - e) else rne_div M (2 ^ nat (e - E)));
           m' = (if m = 2 ^ 53 then 2 ^ 52 else m);
           e' = (if m = 2 ^ 53 then e + 1 else e)
       in if 971 < e' then Infty s else Finite s m' e')"

text \<open>
  A non-negative decimal literal \<open>p / d\<close> of the source text (\<^verbatim>\<open>0.10\<close> is
  \<open>10 / 100\<close>) denotes the nearest float. The quotient is taken to at least 56 bits and a
  last bit records a non-zero remainder, so that rounding it to 53 bits is rounding
  \<open>p / d\<close>.
\<close>

definition float_lit :: "nat \<Rightarrow> nat \<Rightarrow> pyfloat" where
  "float_lit p d =
    (let sh = nat (56 + int (bit_length d) - int (bit_length p));
         q = (p * 2 ^ sh) div d;
         r = (p * 2 ^ sh) mod d
     in round_to False (2 * q + (if r = 0 then 0 else 1)) (- int sh - 1))"

text \<open>Unary minus.\<close>

fun fneg :: "pyfloat \<Rightarrow> pyfloat" where
  "fneg Nan = Nan"
| "fneg (Infty s) = Infty (\<not> s)"
| "fneg (Finite s m e) = Finite (\<not> s) m e"

text \<open>The product \<^verbatim>\<open>x * y\<close>: the exact product of the two values, rounded once.\<close>

fun fmul :: "pyfloat \<Rightarrow> pyfloat \<Rightarrow> pyfloat" where
  "fmul Nan y = Nan"
| "fmul x Nan = Nan"
| "fmul (Infty s) (Infty t) = Infty (s \<noteq> t)"
| "fmul (Infty s) (Finite t m e) = (if m = 0 then Nan else Infty (s \<noteq> t))"
| "fmul (Finite s m e) (Infty t) = (if m = 0 then Nan else Infty (s \<noteq> t))"
| "fmul (Finite s m e) (Finite t n f) = round_to (s \<noteq> t) (m * n) (e + f)"

text \<open>
  The sum \<^verbatim>\<open>x + y\<close>: the exact sum of the two values, rounded once. An exact sum of
  zero is \<open>-0.0\<close> only when both summands are negative.
\<close>

definition signed :: "bool \<Rightarrow> int \<Rightarrow> int" where
  "signed s i = (if s then - i else i)"

fun fadd :: "pyfloat \<Rightarrow> pyfloat \<Rightarrow> pyfloat" where
  "fadd Nan y = Nan"
| "fadd x Nan = Nan"
| "fadd (Infty s) (Infty t) = (if s = t then Infty s else Nan)"
| "fadd (Infty s) (Finite t m e) = Infty s"
| "fadd (Finite s m e) (Infty t) = Infty t"
| "fadd (Finite s m e) (Finite t n f) =
     (let g = min e f;
          i = signed s (int m * 2 ^ nat (e - g)) + signed t (int n * 2 ^ nat (f - g))
      in if i = 0 then Finite (s \<and> t) 0 (- 1074) else round_to (i < 0) (nat \<bar>i\<bar>) g)"

text \<open>
  The comparisons of a float with the integer literal \<^verbatim>\<open>0\<close>: \<^verbatim>\<open>x < 0\<close> and
  \<^verbatim>\<open>x >= 0\<close>. Every comparison with not-a-number is false, and \<open>-0.0\<close> is not below
  zero.
\<close>

fun float_lt_zero :: "pyfloat \<Rightarrow> bool" where
  "float_lt_zero Nan = False"
| "float_lt_zero (Infty s) = s"
| "float_lt_zero (Finite s m e) = (s \<and> m \<noteq> 0)"

fun float_ge_zero :: "pyfloat \<Rightarrow> bool" where
  "float_ge_zero Nan = False"
| "float_ge_zero (Infty s) = (\<not> s)"
| "float_ge_zero (Finite s m e) = (\<not> s \<or> m = 0)"

text \<open>The value of a finite float, as a real number (\<open>0\<close> for the others).\<close>

fun valof :: "pyfloat \<Rightarrow> real" where
  "valof (Finite s m e) = (if s then - 1 else 1) * real m * 2 powi e"
| "valof x = 0"

fun is_finite :: "pyfloat \<Rightarrow> bool" where
  "is_finite (Finite s m e) = True"
| "is_finite x = False"

text \<open>
  The triples that are floats: a finite float is held in canonical form, so its
  significand has at most 53 bits and its exponent lies between \<open>- 1074\<close> and \<open>971\<close>.
\<close>

fun is_binary64 :: "pyfloat \<Rightarrow> bool" where
  "is_binary64 (Finite s m e) =
     (m < 2 ^ 53 \<and> - 1074 \<le> e \<and> e \<le> 971 \<and> (e = - 1074 \<or> 2 ^ 52 \<le> m))"
| "is_binary64 x = True"

text \<open>
  The three amounts \<open>s\<close>, \<open>x\<close>, \<open>i\<close> sum to the income within a relative tolerance of
  \<open>10^-9\<close>: the float sum \<open>(s + x) + i\<close> is finite and within the tolerance, and so is the
  exact sum of the three values.
\<close>

definition sum_within :: "pyfloat \<Rightarrow> pyfloat \<Rightarrow> pyfloat \<Rightarrow> pyfloat \<Rightarrow> bool" where
  "sum_within inc s x i \<longleftrightarrow>
     is_finite (fadd (fadd s x) i)
     \<and> \<bar>valof (fadd (fadd s x) i) - valof inc\<bar> \<le> valof inc / 10 ^ 9
     \<and> \<bar>valof s + valof x + valof i - valof inc\<bar> \<le> valof inc / 10 ^ 9"

section \<open>The gearbox\<close>

text \<open>
  \<^verbatim>\<open>GEAR_RATIOS\<close>, the class attribute: a dictionary literal from the stage name to the
  triple (savings, expenses, investments), assigned once in the class body and assigned
  by no method.
\<close>

definition GEAR_RATIOS :: "(string \<times> pyfloat \<times> pyfloat \<times> pyfloat) list" where
  "GEAR_RATIOS =
    [(''Student'', (float_lit 10 100, float_lit 80 100, float_lit 10 100)),
     (''First Job'', (float_lit 30 100, float_lit 50 100, float_lit 20 100)),
     (''Family'', (float_lit 25 100, float_lit 55 100, float_lit 20 100)),
     (''Retirement'', (float_lit 50 100, float_lit 30 100, float_lit 20 100))]"

text \<open>
  The instance: the three attributes that \<^verbatim>\<open>__init__\<close> creates. The stage is a string
  and the income a float, as the annotations of the methods say and as both callers pass
  them. The two plotting methods and \<^verbatim>\<open>main\<close> assign no attribute and are not modelled.
\<close>

record FinancialGearbox =
  current_stage :: "string option"
  income :: pyfloat
  allocations :: "(string \<times> pyfloat) list"

text \<open>
  A call ends by returning a value or by raising; the instance after the call is kept
  beside it in both cases, since an exception does not undo the assignments before it.
\<close>

datatype exn = ValueError string | KeyError string

datatype 'a outcome = Return 'a | Raise exn

definition init :: FinancialGearbox where
  "init = \<lparr>current_stage = None, income = float_lit 0 1, allocations = []\<rparr>"

definition set_life_stage :: "FinancialGearbox \<Rightarrow> string \<Rightarrow> bool outcome \<times> FinancialGearbox" where
  "set_life_stage self stage =
    (if map_of GEAR_RATIOS stage \<noteq> None
     then (Return True, self\<lparr>current_stage := Some stage\<rparr>)
     else (Return False, self))"

definition calculate_allocation ::
  "FinancialGearbox \<Rightarrow> pyfloat \<Rightarrow> (string \<times> pyfloat) list outcome \<times> FinancialGearbox" where
  "calculate_allocation self inc =
    (case current_stage self of
       None \<Rightarrow>
         (Raise (ValueError ''Life stage must be set before calculating allocation''), self)
     | Some stage \<Rightarrow>
         if float_lt_zero inc then (Raise (ValueError ''Income must be non-negative''), self)
         else
           let self1 = self\<lparr>income := inc\<rparr>
           in (case map_of GEAR_RATIOS stage of
                 None \<Rightarrow> (Raise (KeyError stage), self1)
               | Some (savings_ratio, expenses_ratio, investments_ratio) \<Rightarrow>
                   let self2 = self1\<lparr>allocations :=
                         [(''Savings'', fmul inc savings_ratio),
                          (''Expenses'', fmul inc expenses_ratio),
                          (''Investments'', fmul inc investments_ratio)]\<rparr>
                   in (Return (allocations self2), self2)))"

text \<open>
  \<^verbatim>\<open>display_allocation\<close> prints and returns nothing. The model returns the printed
  lines, one string for each call of \<^verbatim>\<open>print\<close>, with the outcome and the instance. The
  format \<^verbatim>\<open>:,.2f\<close> of a float is the parameter \<open>fmt\<close>; strings are byte strings, so the
  rupee sign is its three bytes in UTF-8.
\<close>

definition rupee :: string where
  "rupee = [CHR 0xE2, CHR 0x82, CHR 0xB9]"

definition rule50 :: string where
  "rule50 = replicate 50 (CHR ''='')"

definition str_stage :: "string option \<Rightarrow> string" where
  "str_stage st = (case st of None \<Rightarrow> ''None'' | Some s \<Rightarrow> s)"

definition display_allocation ::
  "(pyfloat \<Rightarrow> string) \<Rightarrow> FinancialGearbox \<Rightarrow> (unit outcome \<times> string list) \<times> FinancialGearbox" where
  "display_allocation fmt self =
    (if allocations self = [] then ((Return (), [''No allocation calculated yet.'']), self)
     else
       let out1 =
             [CHR 0x0A # rule50,
              ''Financial Gearbox - '' @ str_stage (current_stage self) @ '' Stage'',
              rule50,
              ''Total Income: '' @ rupee @ fmt (income self),
              CHR 0x0A # ''Budget Allocation:'']
       in (case map_of (allocations self) ''Savings'' of
             None \<Rightarrow> ((Raise (KeyError ''Savings''), out1), self)
           | Some sv \<Rightarrow>
               let out2 = out1 @ [''  Savings:      '' @ rupee @ fmt sv]
               in (case map_of (allocations self) ''Expenses'' of
                     None \<Rightarrow> ((Raise (KeyError ''Expenses''), out2), self)
                   | Some ex \<Rightarrow>
                       let out3 = out2 @ [''  Expenses:     '' @ rupee @ fmt ex]
                       in (case map_of (allocations self) ''Investments'' of
                             None \<Rightarrow> ((Raise (KeyError ''Investments''), out3), self)
                           | Some iv \<Rightarrow>
                               ((Return (),
                                 out3 @ [''  Investments:  '' @ rupee @ fmt iv,
                                         rule50 @ [CHR 0x0A]]), self)))))"

section \<open>Evaluating floats\<close>

lemma bit_length_0 [simp]: "bit_length 0 = 0"
  by (simp add: bit_length.simps)

lemma bit_length_Suc_0 [simp]: "bit_length (Suc 0) = 1"
  by (simp add: bit_length.simps)

lemma bit_length_1 [simp]: "bit_length 1 = 1"
  by (simp add: bit_length.simps)

lemma bit_length_Bit0 [simp]: "bit_length (numeral (Num.Bit0 k)) = bit_length (numeral k) + 1"
  by (subst bit_length.simps) simp

lemma bit_length_Bit1 [simp]: "bit_length (numeral (Num.Bit1 k)) = bit_length (numeral k) + 1"
  by (subst bit_length.simps) simp

lemmas float_eval = float_lit_def round_to_def rne_div_def signed_def Let_def

lemma lit_010: "float_lit 10 100 = Finite False 7205759403792794 (- 56)"
  by (simp add: float_eval)

lemma lit_080: "float_lit 80 100 = Finite False 7205759403792794 (- 53)"
  by (simp add: float_eval)

lemma lit_030: "float_lit 30 100 = Finite False 5404319552844595 (- 54)"
  by (simp add: float_eval)

lemma lit_050: "float_lit 50 100 = Finite False 4503599627370496 (- 53)"
  by (simp add: float_eval)

lemma lit_020: "float_lit 20 100 = Finite False 7205759403792794 (- 55)"
  by (simp add: float_eval)

lemma lit_025: "float_lit 25 100 = Finite False 4503599627370496 (- 54)"
  by (simp add: float_eval)

lemma lit_055: "float_lit 55 100 = Finite False 4953959590107546 (- 53)"
  by (simp add: float_eval)

lemma lit_0: "float_lit 0 1 = Finite False 0 (- 1074)"
  by (simp add: float_eval)

lemma lit_1: "float_lit 1 1 = Finite False 4503599627370496 (- 52)"
  by (simp add: float_eval)

lemmas lit_ratios = lit_010 lit_080 lit_030 lit_050 lit_020 lit_025 lit_055

lemma map_of_GEAR_RATIOS:
  "map_of GEAR_RATIOS stage =
    (if stage = ''Student'' then Some (float_lit 10 100, float_lit 80 100, float_lit 10 100)
     else if stage = ''First Job'' then Some (float_lit 30 100, float_lit 50 100, float_lit 20 100)
     else if stage = ''Family'' then Some (float_lit 25 100, float_lit 55 100, float_lit 20 100)
     else if stage = ''Retirement'' then Some (float_lit 50 100, float_lit 30 100, float_lit 20 100)
     else None)"
  by (simp add: GEAR_RATIOS_def)

lemma keys_GEAR_RATIOS:
  "fst ` set GEAR_RATIOS = {''Student'', ''First Job'', ''Family'', ''Retirement''}"
  by (simp add: GEAR_RATIOS_def)

lemma map_of_GEAR_RATIOS_None: "map_of GEAR_RATIOS stage = None \<longleftrightarrow> stage \<notin> fst ` set GEAR_RATIOS"
  by (simp add: map_of_eq_None_iff)

lemma ge_not_lt: "float_ge_zero x \<Longrightarrow> \<not> float_lt_zero x"
  by (cases x) auto

section \<open>Selecting a stage\<close>

text \<open>
  Claim C4. For every string \<open>stage\<close>, \<^verbatim>\<open>set_life_stage\<close> returns \<^verbatim>\<open>True\<close> exactly when
  \<open>stage\<close> is a key of \<^verbatim>\<open>GEAR_RATIOS\<close>, and then it sets the current stage and nothing
  else. For every other name it returns \<^verbatim>\<open>False\<close>, raises nothing and leaves the whole
  instance as it was: a stage selected before stays selected, and
  \<^verbatim>\<open>calculate_allocation\<close> afterwards does what it would have done before, which for a
  valid earlier stage and an income that is at least zero is to return an allocation.
\<close>

theorem set_life_stage_spec:
  "(fst (set_life_stage self stage) = Return True \<longleftrightarrow> stage \<in> fst ` set GEAR_RATIOS)
   \<and> (stage \<in> fst ` set GEAR_RATIOS \<longrightarrow>
        set_life_stage self stage = (Return True, self\<lparr>current_stage := Some stage\<rparr>))
   \<and> (stage \<notin> fst ` set GEAR_RATIOS \<longrightarrow> set_life_stage self stage = (Return False, self))
   \<and> (stage \<notin> fst ` set GEAR_RATIOS \<longrightarrow>
        calculate_allocation (snd (set_life_stage self stage)) inc = calculate_allocation self inc)
   \<and> (stage \<notin> fst ` set GEAR_RATIOS \<and> current_stage self = Some prior
        \<and> prior \<in> fst ` set GEAR_RATIOS \<and> float_ge_zero inc \<longrightarrow>
        (\<exists>a. fst (calculate_allocation (snd (set_life_stage self stage)) inc) = Return a))"
proof -
  have valid: "set_life_stage self stage = (Return True, self\<lparr>current_stage := Some stage\<rparr>)"
    if "stage \<in> fst ` set GEAR_RATIOS"
    using that map_of_GEAR_RATIOS_None [of stage] by (simp add: set_life_stage_def)
  have invalid: "set_life_stage self stage = (Return False, self)"
    if "stage \<notin> fst ` set GEAR_RATIOS"
    using that map_of_GEAR_RATIOS_None [of stage] by (simp add: set_life_stage_def)
  have succeeds: "\<exists>a. fst (calculate_allocation self inc) = Return a"
    if "current_stage self = Some prior" "prior \<in> fst ` set GEAR_RATIOS" "float_ge_zero inc"
  proof -
    from that(2) obtain r where "map_of GEAR_RATIOS prior = Some r"
      using map_of_GEAR_RATIOS_None [of prior] by auto
    with that(1) ge_not_lt [OF that(3)] show ?thesis
      by (cases r) (simp add: calculate_allocation_def)
  qed
  show ?thesis
    using valid invalid succeeds by (cases "stage \<in> fst ` set GEAR_RATIOS") auto
qed

text \<open>
  The scenario of the specification: after \<^verbatim>\<open>Student\<close> is selected, selecting
  \<^verbatim>\<open>Unemployed\<close> is refused and an income of 50000.0 is still allocated.
\<close>

theorem set_life_stage_spec_witness:
  "set_life_stage (snd (set_life_stage init ''Student'')) ''Unemployed''
     = (Return False, snd (set_life_stage init ''Student''))
   \<and> current_stage (snd (set_life_stage init ''Student'')) = Some ''Student''
   \<and> (\<exists>a. fst (calculate_allocation
         (snd (set_life_stage (snd (set_life_stage init ''Student'')) ''Unemployed''))
         (float_lit 50000 1)) = Return a)
   \<and> set_life_stage init ''Family'' = (Return True, init\<lparr>current_stage := Some ''Family''\<rparr>)"
proof -
  have k: "''Unemployed'' \<notin> fst ` set GEAR_RATIOS" "''Student'' \<in> fst ` set GEAR_RATIOS"
    "''Family'' \<in> fst ` set GEAR_RATIOS"
    by (simp_all add: keys_GEAR_RATIOS)
  have c: "current_stage (snd (set_life_stage init ''Student'')) = Some ''Student''"
    by (simp add: set_life_stage_def map_of_GEAR_RATIOS)
  have g: "float_ge_zero (float_lit 50000 1)"
    by (simp add: float_eval)
  from set_life_stage_spec [of "snd (set_life_stage init ''Student'')" "''Unemployed''"
      "float_lit 50000 1" "''Student''"] k c g
  have "set_life_stage (snd (set_life_stage init ''Student'')) ''Unemployed''
       = (Return False, snd (set_life_stage init ''Student''))
     \<and> (\<exists>a. fst (calculate_allocation
         (snd (set_life_stage (snd (set_life_stage init ''Student'')) ''Unemployed''))
         (float_lit 50000 1)) = Return a)"
    by blast
  moreover from set_life_stage_spec [of init "''Family''"] k
  have "set_life_stage init ''Family'' = (Return True, init\<lparr>current_stage := Some ''Family''\<rparr>)"
    by blast
  ultimately show ?thesis
    using c by blast
qed

section \<open>The two failures of the calculation\<close>

text \<open>
  Claim C5. For every income, \<^verbatim>\<open>calculate_allocation\<close> on an instance whose stage is
  still unset fails: it raises the \<^verbatim>\<open>ValueError\<close> that says the life stage must be set
  first (the error the specification calls UnsetState), whatever the income is, and the
  instance is as before.
\<close>

theorem unset_stage_fails:
  "current_stage self = None \<Longrightarrow>
   calculate_allocation self inc =
     (Raise (ValueError ''Life stage must be set before calculating allocation''), self)"
  by (simp add: calculate_allocation_def)

theorem unset_stage_fails_witness:
  "current_stage init = None
   \<and> calculate_allocation init (float_lit 50000 1) =
     (Raise (ValueError ''Life stage must be set before calculating allocation''), init)"
  using unset_stage_fails [of init "float_lit 50000 1"] by (simp add: init_def)

text \<open>
  Claim C6. For every selected stage and every income below zero,
  \<^verbatim>\<open>calculate_allocation\<close> fails: it raises the \<^verbatim>\<open>ValueError\<close> that says the income
  must be non-negative (the error the specification calls InvalidInput), whichever
  stage is selected.
\<close>

theorem negative_income_fails:
  "current_stage self = Some stage \<Longrightarrow> float_lt_zero inc \<Longrightarrow>
   calculate_allocation self inc = (Raise (ValueError ''Income must be non-negative''), self)"
  by (simp add: calculate_allocation_def)

text \<open>The income \<open>-1.0\<close> with the stage \<^verbatim>\<open>Retirement\<close>.\<close>

theorem negative_income_fails_witness:
  "float_lt_zero (fneg (float_lit 1 1))
   \<and> calculate_allocation (init\<lparr>current_stage := Some ''Retirement''\<rparr>) (fneg (float_lit 1 1)) =
     (Raise (ValueError ''Income must be non-negative''), init\<lparr>current_stage := Some ''Retirement''\<rparr>)"
proof -
  have n: "float_lt_zero (fneg (float_lit 1 1))"
    unfolding lit_1 by simp
  show ?thesis
    using negative_income_fails [of "init\<lparr>current_stage := Some ''Retirement''\<rparr>" "''Retirement''"
        "fneg (float_lit 1 1)"] n
    by simp
qed

text \<open>
  Claim C10. \<^verbatim>\<open>calculate_allocation\<close> is atomic on error. When the stage is unset or the
  income is below zero the call raises and the instance (stage, last income, last
  allocation) is exactly what it was. On an instance whose stage is unset or a key of
  the table, which is all that \<^verbatim>\<open>__init__\<close> and \<^verbatim>\<open>set_life_stage\<close> produce, these are the
  only failures, so every failure leaves the instance unchanged.
\<close>

theorem failure_is_atomic:
  "(current_stage self = None \<or> float_lt_zero inc \<longrightarrow>
      (\<exists>e. fst (calculate_allocation self inc) = Raise e)
      \<and> snd (calculate_allocation self inc) = self)
   \<and> ((current_stage self = None \<or> (\<exists>s \<in> fst ` set GEAR_RATIOS. current_stage self = Some s))
        \<and> fst (calculate_allocation self inc) = Raise e \<longrightarrow>
      (current_stage self = None \<or> float_lt_zero inc)
      \<and> snd (calculate_allocation self inc) = self)"
proof -
  have a: "(\<exists>e. fst (calculate_allocation self inc) = Raise e)
      \<and> snd (calculate_allocation self inc) = self"
    if "current_stage self = None \<or> float_lt_zero inc"
    using that by (cases "current_stage self") (auto simp: calculate_allocation_def)
  have b: "current_stage self = None \<or> float_lt_zero inc"
    if "current_stage self = None \<or> (\<exists>s \<in> fst ` set GEAR_RATIOS. current_stage self = Some s)"
      "fst (calculate_allocation self inc) = Raise e"
  proof (rule ccontr)
    assume n: "\<not> (current_stage self = None \<or> float_lt_zero inc)"
    with that(1) obtain s where s: "current_stage self = Some s" "s \<in> fst ` set GEAR_RATIOS"
      by auto
    then obtain r where "map_of GEAR_RATIOS s = Some r"
      using map_of_GEAR_RATIOS_None [of s] by auto
    with s n that(2) show False
      by (cases r) (simp add: calculate_allocation_def)
  qed
  show ?thesis
    using a b by blast
qed

text \<open>
  An instance that holds an allocation but no stage, and an instance with the stage
  \<^verbatim>\<open>Family\<close> given the income \<open>-1.0\<close>.
\<close>

theorem failure_is_atomic_witness:
  "fst (calculate_allocation (init\<lparr>allocations := [(''Savings'', float_lit 1 1)]\<rparr>) (float_lit 7 1))
     = Raise (ValueError ''Life stage must be set before calculating allocation'')
   \<and> snd (calculate_allocation (init\<lparr>allocations := [(''Savings'', float_lit 1 1)]\<rparr>) (float_lit 7 1))
     = init\<lparr>allocations := [(''Savings'', float_lit 1 1)]\<rparr>
   \<and> snd (calculate_allocation (init\<lparr>current_stage := Some ''Family''\<rparr>) (fneg (float_lit 1 1)))
     = init\<lparr>current_stage := Some ''Family''\<rparr>"
proof -
  have n: "float_lt_zero (fneg (float_lit 1 1))"
    unfolding lit_1 by simp
  have c: "current_stage (init\<lparr>allocations := [(''Savings'', float_lit 1 1)]\<rparr>) = None"
    by (simp add: init_def)
  have r: "fst (calculate_allocation (init\<lparr>allocations := [(''Savings'', float_lit 1 1)]\<rparr>) (float_lit 7 1))
     = Raise (ValueError ''Life stage must be set before calculating allocation'')"
    using c by (simp add: calculate_allocation_def)
  show ?thesis
    using failure_is_atomic [of "init\<lparr>allocations := [(''Savings'', float_lit 1 1)]\<rparr>" "float_lit 7 1"]
      failure_is_atomic [of "init\<lparr>current_stage := Some ''Family''\<rparr>" "fneg (float_lit 1 1)"] n c r
    by simp
qed

section \<open>Reading the last allocation\<close>

text \<open>
  Claim C9. Reading the last allocation is a pure read. On a freshly constructed instance
  the attribute \<^verbatim>\<open>allocations\<close> is the empty dictionary and \<^verbatim>\<open>display_allocation\<close> prints
  that no allocation has been calculated yet; and on every instance
  \<^verbatim>\<open>display_allocation\<close> leaves the instance as it was.
\<close>

theorem read_last_allocation:
  "allocations init = []
   \<and> display_allocation fmt init = ((Return (), [''No allocation calculated yet.'']), init)
   \<and> snd (display_allocation fmt self) = self"
  by (simp add: display_allocation_def init_def Let_def split: option.splits)

theorem read_last_allocation_witness:
  "allocations init = []
   \<and> display_allocation (\<lambda>x. ''0.00'') init = ((Return (), [''No allocation calculated yet.'']), init)
   \<and> snd (display_allocation (\<lambda>x. ''0.00'')
         (snd (calculate_allocation (snd (set_life_stage init ''Student'')) (float_lit 50000 1))))
       = snd (calculate_allocation (snd (set_life_stage init ''Student'')) (float_lit 50000 1))"
  using read_last_allocation [of "\<lambda>x. ''0.00''"
      "snd (calculate_allocation (snd (set_life_stage init ''Student'')) (float_lit 50000 1))"]
  by simp

section \<open>The ratio table\<close>

text \<open>Each ratio of the table is the float nearest to its decimal literal.\<close>

lemma ratio_literals:
  "is_binary64 (float_lit 10 100) \<and> \<bar>valof (float_lit 10 100) - 10 / 100\<bar> \<le> 2 powi (- 57)"
  "is_binary64 (float_lit 80 100) \<and> \<bar>valof (float_lit 80 100) - 80 / 100\<bar> \<le> 2 powi (- 54)"
  "is_binary64 (float_lit 30 100) \<and> \<bar>valof (float_lit 30 100) - 30 / 100\<bar> \<le> 2 powi (- 55)"
  "is_binary64 (float_lit 50 100) \<and> valof (float_lit 50 100) = 50 / 100"
  "is_binary64 (float_lit 20 100) \<and> \<bar>valof (float_lit 20 100) - 20 / 100\<bar> \<le> 2 powi (- 56)"
  "is_binary64 (float_lit 25 100) \<and> valof (float_lit 25 100) = 25 / 100"
  "is_binary64 (float_lit 55 100) \<and> \<bar>valof (float_lit 55 100) - 55 / 100\<bar> \<le> 2 powi (- 54)"
  unfolding lit_ratios
  by (simp_all add: power_int_minus field_simps)

text \<open>
  Claim C8. The ratio table is the fixed enumeration Student (0.10, 0.80, 0.10),
  First Job (0.30, 0.50, 0.20), Family (0.25, 0.55, 0.20), Retirement (0.50, 0.30, 0.20):
  these four names in this order, each with the stated triple (every ratio within half a
  unit in the last place of its decimal fraction), and no other name. The table is a
  constant that no operation writes: whatever the instance has been through,
  \<^verbatim>\<open>set_life_stage\<close> accepts exactly these four names.
\<close>

theorem gear_ratios_table:
  "map fst GEAR_RATIOS = [''Student'', ''First Job'', ''Family'', ''Retirement'']
   \<and> map_of GEAR_RATIOS ''Student'' = Some (float_lit 10 100, float_lit 80 100, float_lit 10 100)
   \<and> map_of GEAR_RATIOS ''First Job'' = Some (float_lit 30 100, float_lit 50 100, float_lit 20 100)
   \<and> map_of GEAR_RATIOS ''Family'' = Some (float_lit 25 100, float_lit 55 100, float_lit 20 100)
   \<and> map_of GEAR_RATIOS ''Retirement'' = Some (float_lit 50 100, float_lit 30 100, float_lit 20 100)
   \<and> (stage \<notin> {''Student'', ''First Job'', ''Family'', ''Retirement''} \<longrightarrow>
        map_of GEAR_RATIOS stage = None)
   \<and> \<bar>valof (float_lit 10 100) - 10 / 100\<bar> \<le> 2 powi (- 57)
   \<and> \<bar>valof (float_lit 80 100) - 80 / 100\<bar> \<le> 2 powi (- 54)
   \<and> \<bar>valof (float_lit 30 100) - 30 / 100\<bar> \<le> 2 powi (- 55)
   \<and> valof (float_lit 50 100) = 50 / 100
   \<and> \<bar>valof (float_lit 20 100) - 20 / 100\<bar> \<le> 2 powi (- 56)
   \<and> valof (float_lit 25 100) = 25 / 100
   \<and> \<bar>valof (float_lit 55 100) - 55 / 100\<bar> \<le> 2 powi (- 54)
   \<and> fst (set_life_stage self stage)
       = Return (stage \<in> {''Student'', ''First Job'', ''Family'', ''Retirement''})"
proof -
  have t: "map fst GEAR_RATIOS = [''Student'', ''First Job'', ''Family'', ''Retirement'']
   \<and> map_of GEAR_RATIOS ''Student'' = Some (float_lit 10 100, float_lit 80 100, float_lit 10 100)
   \<and> map_of GEAR_RATIOS ''First Job'' = Some (float_lit 30 100, float_lit 50 100, float_lit 20 100)
   \<and> map_of GEAR_RATIOS ''Family'' = Some (float_lit 25 100, float_lit 55 100, float_lit 20 100)
   \<and> map_of GEAR_RATIOS ''Retirement'' = Some (float_lit 50 100, float_lit 30 100, float_lit 20 100)
   \<and> (stage \<notin> {''Student'', ''First Job'', ''Family'', ''Retirement''} \<longrightarrow>
        map_of GEAR_RATIOS stage = None)"
    by (simp add: GEAR_RATIOS_def)
  have s: "fst (set_life_stage self stage)
       = Return (stage \<in> {''Student'', ''First Job'', ''Family'', ''Retirement''})"
    by (simp add: set_life_stage_def map_of_GEAR_RATIOS)
  show ?thesis
    using t s ratio_literals by (elim conjE) (intro conjI; assumption)
qed

text \<open>
  A name outside the table, on an instance that has selected a stage and calculated an
  allocation.
\<close>

theorem gear_ratios_table_witness:
  "''Unemployed'' \<notin> {''Student'', ''First Job'', ''Family'', ''Retirement''}
   \<and> map_of GEAR_RATIOS ''Unemployed'' = None
   \<and> map_of GEAR_RATIOS ''Student'' = Some (float_lit 10 100, float_lit 80 100, float_lit 10 100)
   \<and> fst (set_life_stage
        (snd (calculate_allocation (snd (set_life_stage init ''Student'')) (float_lit 50000 1)))
        ''Unemployed'') = Return False"
  using gear_ratios_table [of "''Unemployed''"
      "snd (calculate_allocation (snd (set_life_stage init ''Student'')) (float_lit 50000 1))"]
  by simp

section \<open>How failures are signalled\<close>

text \<open>
  Against claim C3 as it is stated: \<^verbatim>\<open>calculate_allocation\<close> does not signal its failures
  by a result value. With no stage selected, and with the income \<open>-1.0\<close>, the call raises
  \<^verbatim>\<open>ValueError\<close>.
\<close>

theorem core_raises_counterexample:
  "fst (calculate_allocation init (float_lit 50000 1))
     = Raise (ValueError ''Life stage must be set before calculating allocation'')
   \<and> fst (calculate_allocation (snd (set_life_stage init ''Student'')) (fneg (float_lit 1 1)))
     = Raise (ValueError ''Income must be non-negative'')"
  unfolding lit_1
  by (simp add: calculate_allocation_def init_def set_life_stage_def map_of_GEAR_RATIOS)

text \<open>
  Claim C3, amended. \<^verbatim>\<open>set_life_stage\<close> always returns a boolean and never raises.
  \<^verbatim>\<open>calculate_allocation\<close> signals each of its two failures by raising \<^verbatim>\<open>ValueError\<close>
  with a message of its own: the message about the life stage exactly when the stage is
  unset, the message about the income exactly when a stage is set and the income is
  below zero. With a stage of the table selected and an income that is not below zero
  it returns.
\<close>

theorem failure_signalling:
  "(\<exists>b. fst (set_life_stage self stage) = Return b)
   \<and> (fst (calculate_allocation self inc)
         = Raise (ValueError ''Life stage must be set before calculating allocation'')
        \<longleftrightarrow> current_stage self = None)
   \<and> (fst (calculate_allocation self inc) = Raise (ValueError ''Income must be non-negative'')
        \<longleftrightarrow> current_stage self \<noteq> None \<and> float_lt_zero inc)
   \<and> ((\<exists>s \<in> fst ` set GEAR_RATIOS. current_stage self = Some s) \<and> \<not> float_lt_zero inc
        \<longrightarrow> (\<exists>a. fst (calculate_allocation self inc) = Return a))"
proof -
  have a: "\<exists>b. fst (set_life_stage self stage) = Return b"
    by (cases "map_of GEAR_RATIOS stage") (auto simp: set_life_stage_def)
  have b: "fst (calculate_allocation self inc)
         = Raise (ValueError ''Life stage must be set before calculating allocation'')
        \<longleftrightarrow> current_stage self = None"
    by (auto simp: calculate_allocation_def Let_def split: option.splits)
  have c: "fst (calculate_allocation self inc) = Raise (ValueError ''Income must be non-negative'')
        \<longleftrightarrow> current_stage self \<noteq> None \<and> float_lt_zero inc"
    by (auto simp: calculate_allocation_def Let_def split: option.splits)
  have d: "\<exists>a. fst (calculate_allocation self inc) = Return a"
    if "\<exists>s \<in> fst ` set GEAR_RATIOS. current_stage self = Some s" "\<not> float_lt_zero inc"
  proof -
    from that(1) obtain s where s: "current_stage self = Some s" "s \<in> fst ` set GEAR_RATIOS"
      by auto
    then obtain r where "map_of GEAR_RATIOS s = Some r"
      using map_of_GEAR_RATIOS_None [of s] by auto
    with s that(2) show ?thesis
      by (cases r) (simp add: calculate_allocation_def)
  qed
  show ?thesis
    using a b c d by blast
qed

theorem failure_signalling_witness:
  "fst (set_life_stage init ''Unemployed'') = Return False
   \<and> fst (calculate_allocation init (float_lit 50000 1))
       = Raise (ValueError ''Life stage must be set before calculating allocation'')
   \<and> fst (calculate_allocation (init\<lparr>current_stage := Some ''Family''\<rparr>) (fneg (float_lit 1 1)))
       = Raise (ValueError ''Income must be non-negative'')
   \<and> (\<exists>a. fst (calculate_allocation (init\<lparr>current_stage := Some ''Family''\<rparr>) (float_lit 50000 1))
       = Return a)"
proof -
  have u: "fst (set_life_stage init ''Unemployed'') = Return False"
    by (simp add: set_life_stage_def map_of_GEAR_RATIOS)
  have n: "float_lt_zero (fneg (float_lit 1 1))"
    unfolding lit_1 by simp
  have p: "\<not> float_lt_zero (float_lit 50000 1)"
    by (simp add: float_eval)
  have i: "current_stage init = None"
    by (simp add: init_def)
  have f: "current_stage (init\<lparr>current_stage := Some ''Family''\<rparr>) = Some ''Family''"
    by simp
  have k: "''Family'' \<in> fst ` set GEAR_RATIOS"
    by (simp add: keys_GEAR_RATIOS)
  have 1: "fst (calculate_allocation init (float_lit 50000 1))
       = Raise (ValueError ''Life stage must be set before calculating allocation'')"
    using failure_signalling [of init "''Unemployed''" "float_lit 50000 1"] i by simp
  have 2: "fst (calculate_allocation (init\<lparr>current_stage := Some ''Family''\<rparr>) (fneg (float_lit 1 1)))
       = Raise (ValueError ''Income must be non-negative'')"
    using failure_signalling [of "init\<lparr>current_stage := Some ''Family''\<rparr>" "''Unemployed''"
        "fneg (float_lit 1 1)"] n
    by simp
  have 3: "\<exists>a. fst (calculate_allocation (init\<lparr>current_stage := Some ''Family''\<rparr>) (float_lit 50000 1))
       = Return a"
    using failure_signalling [of "init\<lparr>current_stage := Some ''Family''\<rparr>" "''Unemployed''"
        "float_lit 50000 1"] p k
    by simp
  show ?thesis
    using u 1 2 3 by simp
qed

section \<open>The allocation\<close>

lemma lit_50000: "float_lit 50000 1 = Finite False 6871947673600000 (- 37)"
  by (simp add: float_eval)

lemma lit_5000: "float_lit 5000 1 = Finite False 5497558138880000 (- 40)"
  by (simp add: float_eval)

lemma lit_40000: "float_lit 40000 1 = Finite False 5497558138880000 (- 37)"
  by (simp add: float_eval)

lemma student_50000:
  "fmul (float_lit 50000 1) (float_lit 10 100) = float_lit 5000 1"
  "fmul (float_lit 50000 1) (float_lit 80 100) = float_lit 40000 1"
  unfolding lit_50000 lit_5000 lit_40000 lit_010 lit_080
  by (simp_all add: float_eval)

text \<open>
  Claim C1. With a stage of the table selected and an income that is at least zero,
  \<^verbatim>\<open>calculate_allocation\<close> returns (and stores) the dictionary whose keys are exactly
  Savings, Expenses and Investments, each with the float product of the income and the
  ratio of that category in the triple of the stage. For the stage \<^verbatim>\<open>Student\<close> and the
  income 50000.0 the three amounts are the floats 5000.0, 40000.0 and 5000.0.
\<close>

theorem allocation_is_income_times_ratio:
  "(current_stage self = Some stage \<and> map_of GEAR_RATIOS stage = Some (sr, er, ir)
      \<and> float_ge_zero inc \<longrightarrow>
      fst (calculate_allocation self inc)
        = Return [(''Savings'', fmul inc sr), (''Expenses'', fmul inc er), (''Investments'', fmul inc ir)]
      \<and> allocations (snd (calculate_allocation self inc))
        = [(''Savings'', fmul inc sr), (''Expenses'', fmul inc er), (''Investments'', fmul inc ir)]
      \<and> (\<forall>a. fst (calculate_allocation self inc) = Return a \<longrightarrow>
            fst ` set a = {''Savings'', ''Expenses'', ''Investments''}))
   \<and> fst (calculate_allocation (snd (set_life_stage init ''Student'')) (float_lit 50000 1))
       = Return [(''Savings'', float_lit 5000 1), (''Expenses'', float_lit 40000 1),
                 (''Investments'', float_lit 5000 1)]"
proof -
  have general: "fst (calculate_allocation self inc)
        = Return [(''Savings'', fmul inc sr), (''Expenses'', fmul inc er), (''Investments'', fmul inc ir)]
      \<and> allocations (snd (calculate_allocation self inc))
        = [(''Savings'', fmul inc sr), (''Expenses'', fmul inc er), (''Investments'', fmul inc ir)]"
    if "current_stage self = Some stage" "map_of GEAR_RATIOS stage = Some (sr, er, ir)"
      "float_ge_zero inc"
    using that(1,2) ge_not_lt [OF that(3)] by (simp add: calculate_allocation_def)
  have student: "current_stage (snd (set_life_stage init ''Student'')) = Some ''Student''"
    by (simp add: set_life_stage_def map_of_GEAR_RATIOS)
  have "\<not> float_lt_zero (float_lit 50000 1)"
    unfolding lit_50000 by simp
  with student have concrete:
    "fst (calculate_allocation (snd (set_life_stage init ''Student'')) (float_lit 50000 1))
       = Return [(''Savings'', float_lit 5000 1), (''Expenses'', float_lit 40000 1),
                 (''Investments'', float_lit 5000 1)]"
    by (simp add: calculate_allocation_def map_of_GEAR_RATIOS student_50000 del: One_nat_def)
  show ?thesis
    using general concrete by auto
qed

text \<open>The stage \<^verbatim>\<open>First Job\<close> with the income 50000.0.\<close>

theorem allocation_is_income_times_ratio_witness:
  "current_stage (snd (set_life_stage init ''First Job'')) = Some ''First Job''
   \<and> map_of GEAR_RATIOS ''First Job'' = Some (float_lit 30 100, float_lit 50 100, float_lit 20 100)
   \<and> float_ge_zero (float_lit 50000 1)
   \<and> fst (calculate_allocation (snd (set_life_stage init ''First Job'')) (float_lit 50000 1))
       = Return [(''Savings'', fmul (float_lit 50000 1) (float_lit 30 100)),
                 (''Expenses'', fmul (float_lit 50000 1) (float_lit 50 100)),
                 (''Investments'', fmul (float_lit 50000 1) (float_lit 20 100))]"
proof -
  have c: "current_stage (snd (set_life_stage init ''First Job'')) = Some ''First Job''"
    by (simp add: set_life_stage_def map_of_GEAR_RATIOS)
  have m: "map_of GEAR_RATIOS ''First Job'' = Some (float_lit 30 100, float_lit 50 100, float_lit 20 100)"
    by (simp add: map_of_GEAR_RATIOS)
  have g: "float_ge_zero (float_lit 50000 1)"
    unfolding lit_50000 by simp
  show ?thesis
    using allocation_is_income_times_ratio [of "snd (set_life_stage init ''First Job'')"
        "''First Job''" "float_lit 30 100" "float_lit 50 100" "float_lit 20 100" "float_lit 50000 1"]
      c m g
    by (simp del: One_nat_def)
qed

section \<open>The ratios of a stage sum to one\<close>

lemma ratio_float_sums:
  "fadd (fadd (float_lit 10 100) (float_lit 80 100)) (float_lit 10 100) = float_lit 1 1"
  "fadd (fadd (float_lit 30 100) (float_lit 50 100)) (float_lit 20 100) = float_lit 1 1"
  "fadd (fadd (float_lit 25 100) (float_lit 55 100)) (float_lit 20 100) = float_lit 1 1"
  "fadd (fadd (float_lit 50 100) (float_lit 30 100)) (float_lit 20 100) = float_lit 1 1"
  unfolding lit_ratios lit_1
  by (simp_all add: float_eval)

lemma ratio_nonneg:
  "float_ge_zero (float_lit 10 100)" "float_ge_zero (float_lit 80 100)"
  "float_ge_zero (float_lit 30 100)" "float_ge_zero (float_lit 50 100)"
  "float_ge_zero (float_lit 20 100)" "float_ge_zero (float_lit 25 100)"
  "float_ge_zero (float_lit 55 100)"
  unfolding lit_ratios by simp_all

lemma exact_sums:
  "\<bar>valof (float_lit 10 100) + valof (float_lit 80 100) + valof (float_lit 10 100) - 1\<bar> \<le> 1 / 2 ^ 53"
  "\<bar>valof (float_lit 30 100) + valof (float_lit 50 100) + valof (float_lit 20 100) - 1\<bar> \<le> 1 / 2 ^ 53"
  "\<bar>valof (float_lit 25 100) + valof (float_lit 55 100) + valof (float_lit 20 100) - 1\<bar> \<le> 1 / 2 ^ 53"
  "\<bar>valof (float_lit 50 100) + valof (float_lit 30 100) + valof (float_lit 20 100) - 1\<bar> \<le> 1 / 2 ^ 53"
  unfolding lit_ratios
  by (simp_all add: power_int_minus field_simps)

text \<open>
  Claim C7. For every stage of the table the three ratios are at least zero and sum to
  1.0: added as floats, from left to right, they give exactly the float 1.0, and the
  exact sum of their values is within \<open>2^-53\<close> of one.
\<close>

theorem ratios_sum_to_one:
  "map_of GEAR_RATIOS stage = Some (a, b, c) \<Longrightarrow>
     float_ge_zero a \<and> float_ge_zero b \<and> float_ge_zero c
     \<and> fadd (fadd a b) c = float_lit 1 1
     \<and> \<bar>valof a + valof b + valof c - 1\<bar> \<le> 1 / 2 ^ 53"
  using ratio_float_sums ratio_nonneg exact_sums
  by (auto simp: map_of_GEAR_RATIOS simp del: One_nat_def split: if_splits)

theorem ratios_sum_to_one_witness:
  "map_of GEAR_RATIOS ''Student'' = Some (float_lit 10 100, float_lit 80 100, float_lit 10 100)
   \<and> float_ge_zero (float_lit 10 100) \<and> float_ge_zero (float_lit 80 100)
   \<and> fadd (fadd (float_lit 10 100) (float_lit 80 100)) (float_lit 10 100) = float_lit 1 1"
proof -
  have m: "map_of GEAR_RATIOS ''Student'' = Some (float_lit 10 100, float_lit 80 100, float_lit 10 100)"
    by (simp add: map_of_GEAR_RATIOS)
  show ?thesis
    using ratios_sum_to_one [OF m] m by (simp del: One_nat_def)
qed

section \<open>The error of one rounding\<close>

lemma bit_length_upper: "n < 2 ^ bit_length n"
proof (induction n rule: bit_length.induct)
  case (1 n)
  show ?case
  proof (cases "n = 0")
    case True
    then show ?thesis by simp
  next
    case False
    with 1 have "n div 2 < 2 ^ bit_length (n div 2)" by simp
    then have "n < 2 * 2 ^ bit_length (n div 2)" by linarith
    with False show ?thesis by (subst bit_length.simps) simp
  qed
qed

lemma bit_length_lower: "0 < n \<Longrightarrow> 2 ^ bit_length n \<le> 2 * n"
proof (induction n rule: bit_length.induct)
  case (1 n)
  show ?case
  proof (cases "n div 2 = 0")
    case True
    with 1(2) have "n = 1" by linarith
    then show ?thesis by simp
  next
    case False
    with 1 have "2 ^ bit_length (n div 2) \<le> 2 * (n div 2)" by simp
    then have "2 * 2 ^ bit_length (n div 2) \<le> 2 * n" by linarith
    with 1(2) show ?thesis by (subst bit_length.simps) simp
  qed
qed

lemma rne_div_error:
  assumes "0 < d"
  shows "\<bar>real (rne_div n d) * real d - real n\<bar> \<le> real d / 2"
proof -
  define q where "q = n div d"
  define r where "r = n mod d"
  have n: "real n = real q * real d + real r"
    unfolding q_def r_def by (metis of_nat_add of_nat_mult div_mult_mod_eq)
  have r: "r < d"
    unfolding r_def using assms by simp
  consider (down) "rne_div n d = q" "2 * r \<le> d" | (up) "rne_div n d = q + 1" "d \<le> 2 * r"
    unfolding rne_div_def q_def r_def Let_def
    by (cases "2 * (n mod d) < d"; cases "d < 2 * (n mod d)"; cases "even (n div d)"; auto)
  then show ?thesis
  proof cases
    case down
    then have "real (rne_div n d) * real d - real n = - real r" using n by simp
    moreover from down(2) have "2 * real r \<le> real d"
      by (metis of_nat_le_iff of_nat_mult of_nat_numeral)
    ultimately show ?thesis by simp
  next
    case up
    then have "real (rne_div n d) * real d - real n = real d - real r"
      using n by (simp add: algebra_simps)
    moreover from up(2) have "real d \<le> 2 * real r"
      by (metis of_nat_le_iff of_nat_mult of_nat_numeral)
    moreover from r have "real r < real d" by simp
    ultimately show ?thesis by simp
  qed
qed

lemma powi2_less_iff: "(2::real) powi a < 2 powi b \<longleftrightarrow> a < b"
proof
  assume l: "(2::real) powi a < 2 powi b"
  show "a < b"
  proof (rule ccontr)
    assume "\<not> a < b"
    then have "b \<le> a" by simp
    then have "(2::real) powi b \<le> 2 powi a" by (intro power_int_increasing) simp_all
    with l show False by simp
  qed
next
  assume "a < b"
  then show "(2::real) powi a < 2 powi b" by (intro power_int_strict_increasing) simp_all
qed

lemma powi2_pos: "0 < (2::real) powi a"
  by (simp add: zero_less_power_int)

lemma powi2_add: "(2::real) powi (a + b) = 2 powi a * 2 powi b"
  by (simp add: power_int_add)

text \<open>
  A positive value below the overflow threshold \<open>2^1024 - 2^970\<close> is rounded to a finite
  float; the error is at most \<open>2^-53\<close> of the value, or \<open>2^-1075\<close> where the result is
  subnormal.
\<close>

lemma round_to_error:
  fixes M :: nat and E :: int
  assumes pos: "0 < M"
    and hi: "real M * 2 powi E < 2 powi 1024 - 2 powi 970"
  shows "\<exists>m e. round_to False M E = Finite False m e
           \<and> \<bar>real m * 2 powi e - real M * 2 powi E\<bar>
               \<le> real M * 2 powi E / 2 ^ 53 + 2 powi (- 1075)"
proof -
  define b where "b = bit_length M"
  define e where "e = max (E + int b - 53) (- 1074)"
  define v where "v = real M * 2 powi E"
  have pE: "0 < (2::real) powi E" by (rule powi2_pos)
  have M0: "M \<noteq> 0" using pos by simp
  have v0: "0 < v" unfolding v_def using pos pE by simp
  have up: "real M < 2 ^ b"
    unfolding b_def using bit_length_upper [of M]
    by (metis of_nat_less_iff of_nat_numeral of_nat_power)
  have low: "(2::real) ^ b \<le> 2 * real M"
    unfolding b_def using bit_length_lower [of M] M0
    by (metis neq0_conv of_nat_le_iff of_nat_numeral of_nat_power of_nat_mult)
  have bv: "2 powi (int b + E) \<le> 2 * v"
    unfolding v_def using low pE by (simp add: powi2_add)
  have "(2::real) powi 1024 - 2 powi 970 < 2 powi 1024"
    using powi2_pos [of 970] by linarith
  with bv hi have "(2::real) powi (int b + E) < 2 * 2 powi 1024" unfolding v_def by linarith
  also have "\<dots> = 2 powi 1025" by simp
  finally have B: "int b + E < 1025" by (simp only: powi2_less_iff)
  have emax: "max (E + int (bit_length M) - 53) (- 1074) = e"
    unfolding e_def b_def by simp
  have e971: "e \<le> 971" unfolding e_def using B by simp
  have ege: "E + int b - 53 \<le> e" "- 1074 \<le> e" unfolding e_def by simp_all
  show ?thesis
  proof (cases "e \<le> E")
    case True
    define m where "m = M * 2 ^ nat (E - e)"
    have p1: "(2::real) ^ nat (E - e) = 2 powi (E - e)"
      using True by (simp add: power_int_nonneg_exp)
    moreover have "(2::real) powi (E - e) * 2 powi e = 2 powi E"
      using powi2_add [of "E - e" e] by simp
    ultimately have val: "real m * 2 powi e = v"
      unfolding m_def v_def by (simp add: mult.assoc)
    have "real m < 2 ^ b * 2 powi (E - e)"
      unfolding m_def using up powi2_pos [of "E - e"] by (simp add: p1)
    also have "\<dots> = 2 powi (int b + (E - e))" by (simp add: powi2_add)
    also have "\<dots> \<le> 2 powi 53"
      using ege(1) by (intro power_int_increasing) simp_all
    finally have "real m < 2 ^ 53" by simp
    then have m53: "m \<noteq> 2 ^ 53" by auto
    have "round_to False M E = Finite False m e"
      using M0 True m53 e971 emax unfolding round_to_def m_def Let_def by simp
    moreover have "0 \<le> v / 2 ^ 53 + 2 powi (- 1075)"
      using v0 powi2_pos [of "- 1075"] by simp
    ultimately show ?thesis using val unfolding v_def by simp
  next
    case False
    define k where "k = nat (e - E)"
    define m where "m = rne_div M (2 ^ k)"
    have eE: "e = E + int k" unfolding k_def using False by simp
    have k1: "1 \<le> k" unfolding k_def using False by simp
    have err: "\<bar>real m * 2 ^ k - real M\<bar> \<le> 2 ^ k / 2"
      using rne_div_error [of "2 ^ k" M] unfolding m_def by simp
    have val: "real m * 2 powi e = (real m * 2 ^ k) * 2 powi E"
      unfolding eE by (simp add: powi2_add)
    have half: "(2::real) ^ k / 2 * 2 powi E = 2 powi (e - 1)"
    proof -
      have "(2::real) powi (e - 1) = 2 powi (int k + E + (- 1))" unfolding eE by (simp add: add.commute)
      also have "\<dots> = 2 ^ k * 2 powi E * 2 powi (- 1)"
        by (subst powi2_add, subst powi2_add) simp
      finally show ?thesis by simp
    qed
    have "\<bar>real m * 2 powi e - v\<bar> = \<bar>real m * 2 ^ k - real M\<bar> * 2 powi E"
      unfolding val v_def using pE by (simp add: abs_mult left_diff_distrib [symmetric])
    also have "\<dots> \<le> 2 ^ k / 2 * 2 powi E"
      using err pE by (intro mult_right_mono) linarith+
    finally have abs_err: "\<bar>real m * 2 powi e - v\<bar> \<le> 2 powi (e - 1)"
      unfolding half .
    have bound: "2 powi (e - 1) \<le> v / 2 ^ 53 + 2 powi (- 1075)"
    proof (cases "e = - 1074")
      case True
      then show ?thesis using v0 by simp
    next
      case neq: False
      then have e: "e = E + int b - 53" unfolding e_def by linarith
      have "e - 1 = int b + E + (- 54)" unfolding e by linarith
      then have "(2::real) powi (e - 1) = 2 powi (int b + E + (- 54))" by (rule arg_cong)
      also have "\<dots> = 2 powi (int b + E) * 2 powi (- 54)" by (rule powi2_add)
      also have "\<dots> \<le> (2 * v) * 2 powi (- 54)"
        using bv by (intro mult_right_mono) simp_all
      also have "\<dots> = v / 2 ^ 53" by (simp add: power_int_minus field_simps)
      finally show ?thesis using powi2_pos [of "- 1075"] by linarith
    qed
    have no_carry: "m \<noteq> 2 ^ 53" if "e = 971"
    proof
      assume "m = 2 ^ 53"
      then have "real m * 2 powi e = 2 powi 53 * 2 powi 971" unfolding that by simp
      also have "\<dots> = 2 powi 1024" by (simp only: powi2_add [symmetric]) simp
      finally have "real m * 2 powi e = 2 powi 1024" .
      moreover have "(2::real) powi (e - 1) = 2 powi 970" unfolding that by simp
      ultimately have "2 powi 1024 - 2 powi 970 \<le> v" using abs_err by linarith
      with hi show False unfolding v_def by linarith
    qed
    show ?thesis
    proof (cases "m = 2 ^ 53")
      case True
      with no_carry e971 have "e \<le> 970" by (cases "e = 971") simp_all
      then have "round_to False M E = Finite False (2 ^ 52) (e + 1)"
        using M0 False True emax unfolding round_to_def m_def k_def Let_def by simp
      moreover have "real (2 ^ 52) * 2 powi (e + 1) = real m * 2 powi e"
        unfolding True by (simp add: powi2_add)
      ultimately have "round_to False M E = Finite False (2 ^ 52) (e + 1)
          \<and> \<bar>real (2 ^ 52) * 2 powi (e + 1) - v\<bar> \<le> v / 2 ^ 53 + 2 powi (- 1075)"
        using abs_err bound by linarith
      then show ?thesis unfolding v_def by blast
    next
      case neq: False
      have "round_to False M E = Finite False m e"
        using M0 False neq e971 emax unfolding round_to_def m_def k_def Let_def by simp
      with abs_err bound have "round_to False M E = Finite False m e
          \<and> \<bar>real m * 2 powi e - v\<bar> \<le> v / 2 ^ 53 + 2 powi (- 1075)"
        by linarith
      then show ?thesis unfolding v_def by blast
    qed
  qed
qed

lemma fmul_error:
  assumes "0 < valof (Finite False m e) * valof (Finite False n f)"
    and "valof (Finite False m e) * valof (Finite False n f) < 2 powi 1024 - 2 powi 970"
  shows "\<exists>m' e'. fmul (Finite False m e) (Finite False n f) = Finite False m' e'
           \<and> \<bar>valof (Finite False m' e') - valof (Finite False m e) * valof (Finite False n f)\<bar>
               \<le> valof (Finite False m e) * valof (Finite False n f) / 2 ^ 53 + 2 powi (- 1075)"
proof -
  have v: "valof (Finite False m e) * valof (Finite False n f) = real (m * n) * 2 powi (e + f)"
    by (simp add: powi2_add)
  have "0 < m * n"
  proof (rule ccontr)
    assume "\<not> 0 < m * n"
    then have "m * n = 0" by simp
    with assms(1) show False unfolding v by simp
  qed
  then show ?thesis
    using round_to_error [of "m * n" "e + f"] assms(2) unfolding v by simp
qed

lemma fadd_error:
  assumes "0 < valof (Finite False m e) + valof (Finite False n f)"
    and "valof (Finite False m e) + valof (Finite False n f) < 2 powi 1024 - 2 powi 970"
  shows "\<exists>m' e'. fadd (Finite False m e) (Finite False n f) = Finite False m' e'
           \<and> \<bar>valof (Finite False m' e') - (valof (Finite False m e) + valof (Finite False n f))\<bar>
               \<le> (valof (Finite False m e) + valof (Finite False n f)) / 2 ^ 53 + 2 powi (- 1075)"
proof -
  define g where "g = min e f"
  define M where "M = m * 2 ^ nat (e - g) + n * 2 ^ nat (f - g)"
  have i: "signed False (int m * 2 ^ nat (e - g)) + signed False (int n * 2 ^ nat (f - g)) = int M"
    unfolding M_def signed_def by simp
  have pe: "(2::real) ^ nat (e - g) * 2 powi g = 2 powi e"
    using powi2_add [of "e - g" g] unfolding g_def by (simp add: power_int_nonneg_exp)
  have pf: "(2::real) ^ nat (f - g) * 2 powi g = 2 powi f"
    using powi2_add [of "f - g" g] unfolding g_def by (simp add: power_int_nonneg_exp)
  have "real M * 2 powi g = real m * (2 ^ nat (e - g) * 2 powi g) + real n * (2 ^ nat (f - g) * 2 powi g)"
    unfolding M_def by (simp add: algebra_simps)
  then have v: "valof (Finite False m e) + valof (Finite False n f) = real M * 2 powi g"
    unfolding pe pf by simp
  have M0: "0 < M"
  proof (rule ccontr)
    assume "\<not> 0 < M"
    then have "M = 0" by simp
    with assms(1) show False unfolding v by simp
  qed
  then have "fadd (Finite False m e) (Finite False n f) = round_to False M g"
    using i by (simp add: Let_def g_def [symmetric])
  then show ?thesis
    using round_to_error [of M g] M0 assms(2) unfolding v by simp
qed

section \<open>The amounts sum to the income\<close>

lemma ratio_bounds:
  "3 / 32 \<le> valof (float_lit 10 100) \<and> valof (float_lit 10 100) \<le> 1"
  "3 / 32 \<le> valof (float_lit 80 100) \<and> valof (float_lit 80 100) \<le> 1"
  "3 / 32 \<le> valof (float_lit 30 100) \<and> valof (float_lit 30 100) \<le> 1"
  "3 / 32 \<le> valof (float_lit 50 100) \<and> valof (float_lit 50 100) \<le> 1"
  "3 / 32 \<le> valof (float_lit 20 100) \<and> valof (float_lit 20 100) \<le> 1"
  "3 / 32 \<le> valof (float_lit 25 100) \<and> valof (float_lit 25 100) \<le> 1"
  "3 / 32 \<le> valof (float_lit 55 100) \<and> valof (float_lit 55 100) \<le> 1"
  unfolding lit_ratios
  by (simp_all add: power_int_minus field_simps)

lemma positive_is_Finite:
  assumes "0 < valof x"
  obtains m e where "x = Finite False m e"
proof (cases x)
  case (Finite s m e)
  have "\<not> s"
  proof
    assume s
    with Finite have "valof x = - (real m * 2 powi e)" by simp
    moreover have "0 \<le> real m * 2 powi e" using powi2_pos [of e] by simp
    ultimately show False using assms by linarith
  qed
  with Finite that show ?thesis by simp
qed (use assms in simp_all)

text \<open>
  Three products and two sums, five roundings: for an income from \<open>2^-1042\<close> up to the
  fourth largest float, the float sum of the amounts and their exact sum are both within
  \<open>10^-9\<close> of the income, relatively.
\<close>

lemma three_way_sum:
  fixes inc sr er ir :: pyfloat
  assumes lo: "2 powi (- 1042) \<le> valof inc"
    and hi: "valof inc \<le> (2 ^ 53 - 4) * 2 powi 971"
    and a: "3 / 32 \<le> valof sr" "valof sr \<le> 1"
    and b: "3 / 32 \<le> valof er" "valof er \<le> 1"
    and c: "3 / 32 \<le> valof ir" "valof ir \<le> 1"
    and one: "\<bar>valof sr + valof er + valof ir - 1\<bar> \<le> 1 / 2 ^ 53"
  shows "is_finite (fmul inc sr) \<and> is_finite (fmul inc er) \<and> is_finite (fmul inc ir)
    \<and> is_finite (fadd (fadd (fmul inc sr) (fmul inc er)) (fmul inc ir))
    \<and> \<bar>valof (fadd (fadd (fmul inc sr) (fmul inc er)) (fmul inc ir)) - valof inc\<bar>
        \<le> valof inc / 10 ^ 9
    \<and> \<bar>valof (fmul inc sr) + valof (fmul inc er) + valof (fmul inc ir) - valof inc\<bar>
        \<le> valof inc / 10 ^ 9"
proof -
  define d :: real where "d = 2 powi (- 1075)"
  define g :: real where "g = 2 powi 971"
  define h :: real where "h = 2 powi 1024 - 2 powi 970"
  define q where "q = valof inc"
  have d0: "0 < d" unfolding d_def by (rule powi2_pos)
  have g0: "0 < g" unfolding g_def by (rule powi2_pos)
  have "(2::real) powi (- 1042) = 2 powi 33 * 2 powi (- 1075)"
    by (simp only: powi2_add [symmetric]) simp
  with lo have lo: "8589934592 * d \<le> q" unfolding d_def q_def by simp
  have "(2::real) powi 1024 = 2 powi 53 * 2 powi 971" "(2::real) powi 971 = 2 powi 1 * 2 powi 970"
    by (simp_all only: powi2_add [symmetric]) simp_all
  then have h: "h = 9007199254740992 * g - g / 2" unfolding h_def g_def by simp
  from hi have hi: "q \<le> 9007199254740988 * g" unfolding g_def q_def by simp
  have "d \<le> 2 powi 961" unfolding d_def by (intro power_int_increasing) simp_all
  moreover have "(2::real) powi 971 = 2 powi 10 * 2 powi 961"
    by (simp only: powi2_add [symmetric]) simp
  ultimately have dg: "1024 * d \<le> g" unfolding g_def by simp
  have q0: "0 < q" using lo d0 by linarith
  obtain m e where inc: "inc = Finite False m e"
    using positive_is_Finite [of inc] q0 unfolding q_def by blast
  have rpos: "0 < valof sr" "0 < valof er" "0 < valof ir" using a(1) b(1) c(1) by linarith+
  obtain m1 e1 where sr: "sr = Finite False m1 e1"
    using positive_is_Finite [OF rpos(1)] by blast
  obtain m2 e2 where er: "er = Finite False m2 e2"
    using positive_is_Finite [OF rpos(2)] by blast
  obtain m3 e3 where ir: "ir = Finite False m3 e3"
    using positive_is_Finite [OF rpos(3)] by blast
  define A where "A = q * valof sr"
  define B where "B = q * valof er"
  define C where "C = q * valof ir"
  have A: "3 / 32 * q \<le> A" "A \<le> q"
    unfolding A_def using a q0 by (simp_all add: mult_left_mono mult.commute [of _ q])
  have B: "3 / 32 * q \<le> B" "B \<le> q"
    unfolding B_def using b q0 by (simp_all add: mult_left_mono mult.commute [of _ q])
  have C: "3 / 32 * q \<le> C" "C \<le> q"
    unfolding C_def using c q0 by (simp_all add: mult_left_mono mult.commute [of _ q])
  have "A + B + C - q = q * (valof sr + valof er + valof ir - 1)"
    unfolding A_def B_def C_def by (simp add: algebra_simps)
  then have "\<bar>A + B + C - q\<bar> = q * \<bar>valof sr + valof er + valof ir - 1\<bar>"
    using q0 by (simp add: abs_mult)
  also have "\<dots> \<le> q * (1 / 2 ^ 53)"
    using one q0 by (intro mult_left_mono) simp_all
  finally have ABC: "\<bar>A + B + C - q\<bar> \<le> q / 9007199254740992" by simp
  have p53: "(2::real) ^ 53 = 9007199254740992" by simp
  have rA: "0 < A" "A < h" using A lo hi h d0 g0 by linarith+
  have rB: "0 < B" "B < h" using B lo hi h d0 g0 by linarith+
  have rC: "0 < C" "C < h" using C lo hi h d0 g0 by linarith+
  have "\<exists>m' e'. fmul inc sr = Finite False m' e'
      \<and> \<bar>valof (Finite False m' e') - A\<bar> \<le> A / 2 ^ 53 + d"
    using fmul_error [of m e m1 e1] rA unfolding A_def q_def d_def h_def inc sr by blast
  then obtain ms es where s: "fmul inc sr = Finite False ms es"
    and s_err: "\<bar>valof (Finite False ms es) - A\<bar> \<le> A / 2 ^ 53 + d"
    by blast
  have "\<exists>m' e'. fmul inc er = Finite False m' e'
      \<and> \<bar>valof (Finite False m' e') - B\<bar> \<le> B / 2 ^ 53 + d"
    using fmul_error [of m e m2 e2] rB unfolding B_def q_def d_def h_def inc er by blast
  then obtain mx ex where x: "fmul inc er = Finite False mx ex"
    and x_err: "\<bar>valof (Finite False mx ex) - B\<bar> \<le> B / 2 ^ 53 + d"
    by blast
  have "\<exists>m' e'. fmul inc ir = Finite False m' e'
      \<and> \<bar>valof (Finite False m' e') - C\<bar> \<le> C / 2 ^ 53 + d"
    using fmul_error [of m e m3 e3] rC unfolding C_def q_def d_def h_def inc ir by blast
  then obtain mi ei where i: "fmul inc ir = Finite False mi ei"
    and i_err: "\<bar>valof (Finite False mi ei) - C\<bar> \<le> C / 2 ^ 53 + d"
    by blast
  define vs where "vs = valof (Finite False ms es)"
  define vx where "vx = valof (Finite False mx ex)"
  define vi where "vi = valof (Finite False mi ei)"
  note s_err = s_err [folded vs_def, unfolded p53] and x_err = x_err [folded vx_def, unfolded p53]
    and i_err = i_err [folded vi_def, unfolded p53]
  have sx: "\<bar>vs + vx - (A + B)\<bar> \<le> A / 9007199254740992 + B / 9007199254740992 + 2 * d"
    using s_err x_err by linarith
  have exact3: "\<bar>vs + vx + vi - q\<bar>
      \<le> 2 * q / 9007199254740992 + q / 81129638414606681695789005144064 + 3 * d"
    using s_err x_err i_err A B C ABC by linarith
  have w1: "0 < vs + vx" "vs + vx < h" "vs + vx \<le> q"
    using sx A B C ABC lo hi h d0 g0 by linarith+
  have "\<exists>m' e'. fadd (Finite False ms es) (Finite False mx ex) = Finite False m' e'
      \<and> \<bar>valof (Finite False m' e') - (vs + vx)\<bar> \<le> (vs + vx) / 2 ^ 53 + d"
    using fadd_error [of ms es mx ex] w1(1,2) unfolding vs_def vx_def d_def h_def by blast
  then obtain m4 e4 where t1: "fadd (Finite False ms es) (Finite False mx ex) = Finite False m4 e4"
    and t1_err: "\<bar>valof (Finite False m4 e4) - (vs + vx)\<bar> \<le> (vs + vx) / 2 ^ 53 + d"
    by blast
  define v1 where "v1 = valof (Finite False m4 e4)"
  note t1_err = t1_err [folded v1_def, unfolded p53 add_divide_distrib]
  have v1: "\<bar>v1 - (vs + vx)\<bar> \<le> q / 9007199254740992 + d"
    using t1_err w1(3) by linarith
  have sum2: "\<bar>v1 + vi - q\<bar>
      \<le> 3 * q / 9007199254740992 + q / 81129638414606681695789005144064 + 4 * d"
    using v1 exact3 by linarith
  have w2: "0 < v1 + vi" "v1 + vi < h" "v1 + vi \<le> 2 * q"
    using sum2 lo hi h d0 g0 dg by linarith+
  have "\<exists>m' e'. fadd (Finite False m4 e4) (Finite False mi ei) = Finite False m' e'
      \<and> \<bar>valof (Finite False m' e') - (v1 + vi)\<bar> \<le> (v1 + vi) / 2 ^ 53 + d"
    using fadd_error [of m4 e4 mi ei] w2(1,2) unfolding v1_def vi_def d_def h_def by blast
  then obtain m5 e5 where t: "fadd (Finite False m4 e4) (Finite False mi ei) = Finite False m5 e5"
    and t_err: "\<bar>valof (Finite False m5 e5) - (v1 + vi)\<bar> \<le> (v1 + vi) / 2 ^ 53 + d"
    by blast
  define vt where "vt = valof (Finite False m5 e5)"
  note t_err = t_err [folded vt_def, unfolded p53 add_divide_distrib]
  have "\<bar>vt - (v1 + vi)\<bar> \<le> 2 * q / 9007199254740992 + d"
    using t_err w2(3) by linarith
  then have total: "\<bar>vt - q\<bar> \<le> q / 1000000000"
    using sum2 q0 lo d0 by linarith
  have exact: "\<bar>vs + vx + vi - q\<bar> \<le> q / 1000000000"
    using exact3 q0 lo d0 by linarith
  show ?thesis
    unfolding s x i t1 t using total exact
    unfolding vt_def vs_def vx_def vi_def q_def by (simp del: valof.simps)
qed

text \<open>The three largest floats are evaluated, stage by stage.\<close>

lemma top_values:
  assumes "is_binary64 (Finite False m e)"
    and "(2 ^ 53 - 4) * 2 powi 971 < valof (Finite False m e)"
  shows "e = 971 \<and> m \<in> {9007199254740989, 9007199254740990, 9007199254740991}"
proof -
  from assms(1) have m: "m < 2 ^ 53" and e: "e \<le> 971" by simp_all
  from m have "m \<le> 9007199254740991" by simp
  then have "real m \<le> real (9007199254740991::nat)" by (simp only: of_nat_le_iff)
  then have rm: "real m \<le> 2 ^ 53 - 1" by simp
  have e971: "e = 971"
  proof (rule ccontr)
    assume "e \<noteq> 971"
    with e have "e \<le> 970" by simp
    then have "(2::real) powi e \<le> 2 powi 970" by (intro power_int_increasing) simp_all
    then have "real m * 2 powi e \<le> (2 ^ 53 - 1) * 2 powi 970"
      using rm by (intro mult_mono) simp_all
    also have "\<dots> < (2 ^ 53 - 4) * 2 powi 971" by simp
    finally show False using assms(2) by simp
  qed
  from assms(2) have "(2 ^ 53 - 4) * 2 powi 971 < real m * 2 powi 971"
    unfolding e971 by simp
  then have "(2::real) ^ 53 - 4 < real m"
    using powi2_pos [of 971] by (simp only: mult_less_cancel_right_pos)
  then have "real (9007199254740988::nat) < real m" by simp
  then have "9007199254740988 < m" by (simp only: of_nat_less_iff)
  moreover from m have "m < 9007199254740992" by simp
  ultimately have "m = 9007199254740989 \<or> m = 9007199254740990 \<or> m = 9007199254740991"
    by presburger
  then have "m \<in> {9007199254740989, 9007199254740990, 9007199254740991}"
    by (simp only: insert_iff empty_iff simp_thms)
  with e971 show ?thesis by simp
qed

lemma top_sum_student:
  assumes "m \<in> {9007199254740989, 9007199254740990, 9007199254740991}"
  shows "sum_within (Finite False m 971) (fmul (Finite False m 971) (float_lit 10 100))
     (fmul (Finite False m 971) (float_lit 80 100)) (fmul (Finite False m 971) (float_lit 10 100))"
  using assms unfolding lit_ratios
  by (elim insertE emptyE) (simp_all add: float_eval sum_within_def)

lemma top_sum_first_job:
  assumes "m \<in> {9007199254740989, 9007199254740990, 9007199254740991}"
  shows "sum_within (Finite False m 971) (fmul (Finite False m 971) (float_lit 30 100))
     (fmul (Finite False m 971) (float_lit 50 100)) (fmul (Finite False m 971) (float_lit 20 100))"
  using assms unfolding lit_ratios
  by (elim insertE emptyE) (simp_all add: float_eval sum_within_def)

lemma top_sum_family:
  assumes "m \<in> {9007199254740989, 9007199254740990, 9007199254740991}"
  shows "sum_within (Finite False m 971) (fmul (Finite False m 971) (float_lit 25 100))
     (fmul (Finite False m 971) (float_lit 55 100)) (fmul (Finite False m 971) (float_lit 20 100))"
  using assms unfolding lit_ratios
  by (elim insertE emptyE) (simp_all add: float_eval sum_within_def)

lemma top_sum_retirement:
  assumes "m \<in> {9007199254740989, 9007199254740990, 9007199254740991}"
  shows "sum_within (Finite False m 971) (fmul (Finite False m 971) (float_lit 50 100))
     (fmul (Finite False m 971) (float_lit 30 100)) (fmul (Finite False m 971) (float_lit 20 100))"
  using assms unfolding lit_ratios
  by (elim insertE emptyE) (simp_all add: float_eval sum_within_def)

lemma top_sums:
  assumes "m \<in> {9007199254740989, 9007199254740990, 9007199254740991}" and "map_of GEAR_RATIOS stage = Some (sr, er, ir)"
  shows "sum_within (Finite False m 971) (fmul (Finite False m 971) sr)
     (fmul (Finite False m 971) er) (fmul (Finite False m 971) ir)"
  using assms(2) top_sum_student [OF assms(1)] top_sum_first_job [OF assms(1)]
    top_sum_family [OF assms(1)] top_sum_retirement [OF assms(1)]
  by (auto simp: map_of_GEAR_RATIOS split: if_splits)

lemma table_ratios:
  assumes "map_of GEAR_RATIOS stage = Some (sr, er, ir)"
  shows "3 / 32 \<le> valof sr \<and> valof sr \<le> 1 \<and> 3 / 32 \<le> valof er \<and> valof er \<le> 1
    \<and> 3 / 32 \<le> valof ir \<and> valof ir \<le> 1
    \<and> \<bar>valof sr + valof er + valof ir - 1\<bar> \<le> 1 / 2 ^ 53"
  using assms ratio_bounds exact_sums
  by (auto simp: map_of_GEAR_RATIOS simp del: One_nat_def valof.simps split: if_splits)

lemma fmul_zero:
  assumes "0 < valof r"
  shows "fmul (Finite s 0 e) r = Finite s 0 (- 1074)"
proof -
  obtain n f where "r = Finite False n f"
    using positive_is_Finite [OF assms] by blast
  then show ?thesis by (simp add: round_to_def)
qed

lemma zero_sum:
  "fadd (fadd (Finite s 0 (- 1074)) (Finite s 0 (- 1074))) (Finite s 0 (- 1074)) = Finite s 0 (- 1074)"
  by (simp add: signed_def)

text \<open>
  Against claim C2 as it is stated: the income \<open>3 * 2^-1074\<close> (the float 1.5e-323) is at
  least zero, and with the stage \<^verbatim>\<open>Student\<close> its amounts are \<open>0\<close>, \<open>2 * 2^-1074\<close> and
  \<open>0\<close>: the products \<open>0.3 * 2^-1074\<close> and \<open>2.4 * 2^-1074\<close> are rounded to multiples of
  \<open>2^-1074\<close>. The amounts sum to two thirds of the income.
\<close>

theorem tiny_income_counterexample:
  "is_binary64 (Finite False 3 (- 1074)) \<and> float_ge_zero (Finite False 3 (- 1074))
   \<and> fst (calculate_allocation (snd (set_life_stage init ''Student'')) (Finite False 3 (- 1074)))
     = Return [(''Savings'', Finite False 0 (- 1074)), (''Expenses'', Finite False 2 (- 1074)),
               (''Investments'', Finite False 0 (- 1074))]
   \<and> fadd (fadd (Finite False 0 (- 1074)) (Finite False 2 (- 1074))) (Finite False 0 (- 1074))
     = Finite False 2 (- 1074)
   \<and> \<not> \<bar>valof (Finite False 2 (- 1074)) - valof (Finite False 3 (- 1074))\<bar>
         \<le> valof (Finite False 3 (- 1074)) / 10 ^ 9"
proof -
  have c: "current_stage (snd (set_life_stage init ''Student'')) = Some ''Student''"
    by (simp add: set_life_stage_def map_of_GEAR_RATIOS)
  have p: "fmul (Finite False 3 (- 1074)) (float_lit 10 100) = Finite False 0 (- 1074)"
    "fmul (Finite False 3 (- 1074)) (float_lit 80 100) = Finite False 2 (- 1074)"
    unfolding lit_ratios by (simp_all add: float_eval)
  have a: "fst (calculate_allocation (snd (set_life_stage init ''Student'')) (Finite False 3 (- 1074)))
     = Return [(''Savings'', Finite False 0 (- 1074)), (''Expenses'', Finite False 2 (- 1074)),
               (''Investments'', Finite False 0 (- 1074))]"
    using c by (simp add: calculate_allocation_def map_of_GEAR_RATIOS p del: fmul.simps)
  have s: "fadd (fadd (Finite False 0 (- 1074)) (Finite False 2 (- 1074))) (Finite False 0 (- 1074))
     = Finite False 2 (- 1074)"
    by (simp add: float_eval)
  have "valof (Finite False 3 (- 1074)) - valof (Finite False 2 (- 1074)) = 2 powi (- 1074)"
    by simp
  moreover have "valof (Finite False 3 (- 1074)) = 3 * 2 powi (- 1074)"
    by simp
  ultimately have n: "\<not> \<bar>valof (Finite False 2 (- 1074)) - valof (Finite False 3 (- 1074))\<bar>
         \<le> valof (Finite False 3 (- 1074)) / 10 ^ 9"
    using powi2_pos [of "- 1074"] by (simp del: valof.simps)
  show ?thesis
    using a s n by simp
qed

text \<open>
  Claim C2, amended. For every stage of the table and every finite float income that is
  zero or at least \<open>2^-1042\<close>, \<^verbatim>\<open>calculate_allocation\<close> returns three amounts whose sum
  is the income within a relative tolerance of \<open>10^-9\<close>: the float sum
  Savings + Expenses + Investments is finite and within the tolerance, and so is the
  exact sum of the three values.
\<close>

theorem allocation_sums_to_income:
  assumes "current_stage self = Some stage" and "map_of GEAR_RATIOS stage = Some (sr, er, ir)"
    and "is_finite inc" and "is_binary64 inc"
    and "valof inc = 0 \<or> 2 powi (- 1042) \<le> valof inc"
  shows "\<exists>s x i. fst (calculate_allocation self inc)
        = Return [(''Savings'', s), (''Expenses'', x), (''Investments'', i)]
      \<and> is_finite (fadd (fadd s x) i)
      \<and> \<bar>valof (fadd (fadd s x) i) - valof inc\<bar> \<le> valof inc / 10 ^ 9
      \<and> \<bar>valof s + valof x + valof i - valof inc\<bar> \<le> valof inc / 10 ^ 9"
proof -
  note r = table_ratios [OF assms(2)]
  from assms(5) show ?thesis
  proof
    assume z: "valof inc = 0"
    from assms(3) obtain s m e where inc: "inc = Finite s m e"
      by (cases inc) simp_all
    with z have m: "m = 0" by (auto simp: power_int_eq_0_iff split: if_splits)
    have pos: "0 < valof sr" "0 < valof er" "0 < valof ir"
      using r by linarith+
    have ret: "fst (calculate_allocation self inc)
        = Return [(''Savings'', Finite s 0 (- 1074)), (''Expenses'', Finite s 0 (- 1074)),
                  (''Investments'', Finite s 0 (- 1074))]"
      using assms(1,2) pos unfolding inc m
      by (simp add: calculate_allocation_def fmul_zero del: fmul.simps)
    have "is_finite (fadd (fadd (Finite s 0 (- 1074)) (Finite s 0 (- 1074))) (Finite s 0 (- 1074)))
      \<and> \<bar>valof (fadd (fadd (Finite s 0 (- 1074)) (Finite s 0 (- 1074))) (Finite s 0 (- 1074)))
          - valof inc\<bar> \<le> valof inc / 10 ^ 9
      \<and> \<bar>valof (Finite s 0 (- 1074)) + valof (Finite s 0 (- 1074)) + valof (Finite s 0 (- 1074))
          - valof inc\<bar> \<le> valof inc / 10 ^ 9"
      unfolding zero_sum inc m by simp
    with ret show ?thesis by blast
  next
    assume lo: "2 powi (- 1042) \<le> valof inc"
    have "0 < valof inc"
      using lo powi2_pos [of "- 1042"] by linarith
    then obtain m e where inc: "inc = Finite False m e"
      using positive_is_Finite by blast
    then have nlt: "\<not> float_lt_zero inc" by simp
    have ret: "fst (calculate_allocation self inc)
        = Return [(''Savings'', fmul inc sr), (''Expenses'', fmul inc er), (''Investments'', fmul inc ir)]"
      using assms(1,2) nlt by (simp add: calculate_allocation_def)
    have "sum_within inc (fmul inc sr) (fmul inc er) (fmul inc ir)"
    proof (cases "valof inc \<le> (2 ^ 53 - 4) * 2 powi 971")
      case True
      from three_way_sum [OF lo True, of sr er ir] r show ?thesis
        unfolding sum_within_def by blast
    next
      case False
      then have "(2 ^ 53 - 4) * 2 powi 971 < valof (Finite False m e)"
        unfolding inc by simp
      with top_values [of m e] assms(4) have "e = 971" "m \<in> {9007199254740989, 9007199254740990, 9007199254740991}"
        unfolding inc by blast+
      with top_sums [OF _ assms(2), of m] show ?thesis
        unfolding inc by simp
    qed
    with ret show ?thesis unfolding sum_within_def by blast
  qed
qed

text \<open>The stage \<^verbatim>\<open>Student\<close> with the income 50000.0.\<close>

theorem allocation_sums_to_income_witness:
  "current_stage (snd (set_life_stage init ''Student'')) = Some ''Student''
   \<and> map_of GEAR_RATIOS ''Student'' = Some (float_lit 10 100, float_lit 80 100, float_lit 10 100)
   \<and> is_finite (float_lit 50000 1) \<and> is_binary64 (float_lit 50000 1)
   \<and> 2 powi (- 1042) \<le> valof (float_lit 50000 1)
   \<and> (\<exists>s x i. fst (calculate_allocation (snd (set_life_stage init ''Student'')) (float_lit 50000 1))
        = Return [(''Savings'', s), (''Expenses'', x), (''Investments'', i)]
      \<and> is_finite (fadd (fadd s x) i)
      \<and> \<bar>valof (fadd (fadd s x) i) - valof (float_lit 50000 1)\<bar> \<le> valof (float_lit 50000 1) / 10 ^ 9
      \<and> \<bar>valof s + valof x + valof i - valof (float_lit 50000 1)\<bar>
          \<le> valof (float_lit 50000 1) / 10 ^ 9)"
proof -
  have c: "current_stage (snd (set_life_stage init ''Student'')) = Some ''Student''"
    by (simp add: set_life_stage_def map_of_GEAR_RATIOS)
  have t: "map_of GEAR_RATIOS ''Student'' = Some (float_lit 10 100, float_lit 80 100, float_lit 10 100)"
    by (simp add: map_of_GEAR_RATIOS)
  have f: "is_finite (float_lit 50000 1)" "is_binary64 (float_lit 50000 1)"
    unfolding lit_50000 by simp_all
  have v: "valof (float_lit 50000 1) = 50000"
    unfolding lit_50000 by (simp add: power_int_minus)
  have lo: "2 powi (- 1042) \<le> valof (float_lit 50000 1)"
    unfolding v by (simp add: power_int_minus field_simps)
  show ?thesis
    using allocation_sums_to_income [OF c t f] c t f lo by blast
qed

end
